theory Spec2Isabelle
  imports Main "HOL-Library.Sublist"
begin

section \<open>Data model of the page view (page-main.tsx)\<close>

text \<open>
  The component \<open>Page\<close> keeps its state in React hooks. The model collects the hooks the
  stream reducer, the pagination effects, \<open>stop\<close> and \<open>onDeleteSection\<close> read or write
  in one record, and every handler becomes a function from state to state.

  Identifiers, titles, cursors and content are JavaScript strings (\<open>string\<close>); a value
  that may be \<open>undefined\<close> is an \<open>option\<close>. The field \<open>id\<close> of a page or a section is
  called \<open>page_id\<close>, \<open>section_id\<close> (\<open>id\<close> is the identity function of HOL), and the
  other fields the two objects share are prefixed the same way.
\<close>

record PageItem =
  page_typename :: "string option"
  page_id :: string
  authorId :: string
  page_title :: string
  page_content :: string
  updatedAt :: string
  createdAt :: string

record SectionItem =
  section_typename :: "string option"
  section_id :: string
  section_pageId :: "string option"
  section_title :: string
  section_content :: string

text \<open>
  The union \<open>CreateThreadToPageRunSubscription['createThreadToPageRun']\<close>, one
  constructor per \<open>__typename\<close> of the subscription document (lines 61-94). The sections
  of \<open>PageSectionsCreated\<close> carry \<open>id\<close> and \<open>title\<close>. \<open>OtherEvent\<close> stands for any tag
  the \<open>switch\<close> sends to its \<open>default\<close> arm.
\<close>

datatype event =
    PageCreated string string string
  | PageContentDelta string
  | PageContentCompleted string
  | PageSectionsCreated "(string \<times> string) list"
  | PageSectionContentDelta string string
  | PageSectionContentCompleted string
  | PageCompleted string
  | OtherEvent string

text \<open>
  The hooks of \<open>Page\<close> (lines 116-151 and 289). \<open>unsubscribeFn\<close> is \<open>True\<close> while the ref
  holds the unsubscribe function of an open subscription. \<open>urlPage\<close> records the last
  page handed to \<open>updatePageURL\<close> (the router is a collaborator), and \<open>toasts\<close> the
  messages handed to \<open>toast.error\<close>, oldest first.
\<close>

record state =
  pageId :: "string option"
  page :: "PageItem option"
  sections :: "SectionItem list option"
  pendingSectionIds :: "string set"
  isGeneratingPageContent :: bool
  isLoading :: bool
  currentSectionId :: "string option"
  isReady :: bool
  afterCursor :: "string option"
  unsubscribeFn :: bool
  urlPage :: "PageItem option"
  toasts :: "string list"

text \<open>
  The initial values of the hooks; \<open>isReady\<close> starts as \<open>!!pendingThreadId\<close> (line 128).
\<close>

definition initialState :: "string option \<Rightarrow> state" where
  "initialState pendingThreadId =
     \<lparr> pageId = None, page = None, sections = None, pendingSectionIds = {},
       isGeneratingPageContent = False, isLoading = False, currentSectionId = None,
       isReady = (case pendingThreadId of None \<Rightarrow> False | Some t \<Rightarrow> t \<noteq> []),
       afterCursor = None, unsubscribeFn = False, urlPage = None, toasts = [] \<rparr>"

section \<open>The stream reducer: processPageStream and stop\<close>

text \<open>\<open>stop\<close> (lines 262-271): unsubscribe, drop the handle, reset the streaming flags.\<close>

definition stop :: "state \<Rightarrow> state" where
  "stop s = s\<lparr> unsubscribeFn := False, isLoading := False,
               isGeneratingPageContent := False, pendingSectionIds := {},
               currentSectionId := None \<rparr>"

text \<open>The updater of \<open>setPage\<close> in the \<open>PageContentDelta\<close> arm (lines 173-180).\<close>

definition appendPageDelta :: "string \<Rightarrow> PageItem option \<Rightarrow> PageItem option" where
  "appendPageDelta delta prev =
     (case prev of
        None \<Rightarrow> None
      | Some p \<Rightarrow>
          Some (p\<lparr> page_typename :=
                      (case page_typename p of None \<Rightarrow> Some ''Page'' | Some t \<Rightarrow> Some t),
                    page_content := page_content p @ delta \<rparr>))"

text \<open>
  The section objects built in the \<open>PageSectionsCreated\<close> arm (lines 189-194);
  \<open>pid\<close> is the \<open>pageId\<close> the running closure sees.
\<close>

definition nextSections :: "string option \<Rightarrow> (string \<times> string) list \<Rightarrow> SectionItem list" where
  "nextSections pid xs =
     map (\<lambda>x. \<lparr> section_typename = Some ''Section'', section_id = fst x,
                section_pageId = pid, section_title = snd x, section_content = [] \<rparr>) xs"

text \<open>
  The updater of \<open>setSections\<close> in the \<open>PageSectionContentDelta\<close> arm (lines 201-215):
  \<open>prev\<close> is returned as it is when it is \<open>undefined\<close> or \<open>find\<close> finds no section with the
  id. \<open>x.content || ''\<close> is \<open>x.content\<close> for a string.
\<close>

definition appendSectionDelta ::
  "string \<Rightarrow> string \<Rightarrow> SectionItem list option \<Rightarrow> SectionItem list option" where
  "appendSectionDelta i delta prev =
     (case prev of
        None \<Rightarrow> None
      | Some xs \<Rightarrow>
          (case find (\<lambda>x. section_id x = i) xs of
             None \<Rightarrow> Some xs
           | Some section \<Rightarrow>
               Some (map (\<lambda>x. if section_id x = i
                               then x\<lparr> section_content := section_content x @ delta \<rparr>
                               else x) xs)))"

text \<open>The updater of \<open>setPendingSectionIds\<close> (lines 218-225).\<close>

definition removePending :: "string \<Rightarrow> string set \<Rightarrow> string set" where
  "removePending i prev = (if i \<notin> prev then prev else prev - {i})"

text \<open>
  \<open>processPageStream\<close> (lines 153-234). \<open>pid\<close> is the value of \<open>pageId\<close> in the closure
  that runs (the subscription keeps the callback of the render that opened it), and
  \<open>now\<close> the result of \<open>new Date().toISOString()\<close>.

  The \<open>PageSectionContentDelta\<close> arm (lines 199-216) does not end in \<open>break\<close>: control
  falls into the \<open>PageSectionContentCompleted\<close> arm, whose updater runs with the same
  \<open>data.id\<close>.
\<close>

fun processPageStream :: "string option \<Rightarrow> string \<Rightarrow> event \<Rightarrow> state \<Rightarrow> state" where
  "processPageStream pid now (PageCreated i a t) s =
     s\<lparr> pageId := Some i,
        page := Some \<lparr> page_typename = None, page_id = i, authorId = a, page_title = t,
                       page_content = [], updatedAt = now, createdAt = now \<rparr>,
        isGeneratingPageContent := True,
        urlPage := Some \<lparr> page_typename = None, page_id = i, authorId = a, page_title = t,
                          page_content = [], updatedAt = now, createdAt = now \<rparr> \<rparr>"
| "processPageStream pid now (PageContentDelta delta) s =
     s\<lparr> page := appendPageDelta delta (page s) \<rparr>"
| "processPageStream pid now (PageContentCompleted i) s =
     s\<lparr> isGeneratingPageContent := False \<rparr>"
| "processPageStream pid now (PageSectionsCreated xs) s =
     s\<lparr> pendingSectionIds := set (map fst xs),
        sections := Some (nextSections pid xs) \<rparr>"
| "processPageStream pid now (PageSectionContentDelta i delta) s =
     s\<lparr> currentSectionId := Some i,
        sections := appendSectionDelta i delta (sections s),
        pendingSectionIds := removePending i (pendingSectionIds s) \<rparr>"
| "processPageStream pid now (PageSectionContentCompleted i) s =
     s\<lparr> pendingSectionIds := removePending i (pendingSectionIds s) \<rparr>"
| "processPageStream pid now (PageCompleted i) s = stop s"
| "processPageStream pid now (OtherEvent tag) s = s"

text \<open>
  The subscription hands the events to the reducer one after the other
  (line 254): a fold from the left.
\<close>

definition runStream :: "string option \<Rightarrow> string \<Rightarrow> state \<Rightarrow> event list \<Rightarrow> state" where
  "runStream pid now s es = foldl (\<lambda>st e. processPageStream pid now e st) s es"

text \<open>The ids of the current section list (none while the list is \<open>undefined\<close>).\<close>

definition sectionIds :: "state \<Rightarrow> string set" where
  "sectionIds s = (case sections s of None \<Rightarrow> {} | Some xs \<Rightarrow> section_id ` set xs)"

section \<open>Event sequences\<close>

text \<open>
  What a sequence of events delivers: the deltas of the page, and the deltas that carry
  the id of one section, each concatenated in the order of delivery.
\<close>

definition pageDelta :: "event \<Rightarrow> string" where
  "pageDelta e = (case e of PageContentDelta d \<Rightarrow> d | _ \<Rightarrow> [])"

definition pageDeltas :: "event list \<Rightarrow> string" where
  "pageDeltas es = concat (map pageDelta es)"

definition sectionDelta :: "string \<Rightarrow> event \<Rightarrow> string" where
  "sectionDelta i e =
     (case e of PageSectionContentDelta j d \<Rightarrow> if j = i then d else [] | _ \<Rightarrow> [])"

definition sectionDeltas :: "string \<Rightarrow> event list \<Rightarrow> string" where
  "sectionDeltas i es = concat (map (sectionDelta i) es)"

text \<open>Whether a page was created, and the section ids created, by the events of a list.\<close>

definition isPageCreated :: "event \<Rightarrow> bool" where
  "isPageCreated e = (case e of PageCreated i a t \<Rightarrow> True | _ \<Rightarrow> False)"

definition pageCreatedIn :: "event list \<Rightarrow> bool" where
  "pageCreatedIn es = list_ex isPageCreated es"

definition createdBy :: "event \<Rightarrow> string list" where
  "createdBy e = (case e of PageSectionsCreated xs \<Rightarrow> map fst xs | _ \<Rightarrow> [])"

definition createdIds :: "event list \<Rightarrow> string list" where
  "createdIds es = concat (map createdBy es)"

text \<open>
  The causal ordering of the stream. After the events \<open>h\<close>, an event is admissible when
  what it depends on was delivered before it:
  \<^item> \<open>PageCreated\<close> creates the page, so no page was created before;
  \<^item> \<open>PageContentDelta\<close> follows the creation of the page;
  \<^item> \<open>PageSectionsCreated\<close> creates its sections, so none of its ids was created before;
  \<^item> \<open>PageSectionContentDelta\<close> follows the creation of its section.

  The other events are admissible anywhere. A sequence is causal when each of its events
  is admissible after the ones before it.
\<close>

fun admissible :: "event list \<Rightarrow> event \<Rightarrow> bool" where
  "admissible h (PageCreated i a t) = (\<not> pageCreatedIn h)"
| "admissible h (PageContentDelta d) = pageCreatedIn h"
| "admissible h (PageSectionsCreated xs) = list_all (\<lambda>x. fst x \<notin> set (createdIds h)) xs"
| "admissible h (PageSectionContentDelta i d) = (i \<in> set (createdIds h))"
| "admissible h e = True"

fun causalRev :: "event list \<Rightarrow> bool" where
  "causalRev [] = True"
| "causalRev (e # h) = (admissible (rev h) e \<and> causalRev h)"

definition causal :: "event list \<Rightarrow> bool" where
  "causal es = causalRev (rev es)"

text \<open>Scenario 1 of the specification, for an author \<open>a\<close>.\<close>

definition scenario1 :: "string \<Rightarrow> event list" where
  "scenario1 a =
     [PageCreated ''1'' a ''T'', PageContentDelta ''Hel'', PageContentDelta ''lo'',
      PageContentCompleted ''1'', PageSectionsCreated [(''s1'', ''A'')],
      PageSectionContentDelta ''s1'' ''Hi'', PageSectionContentCompleted ''s1'',
      PageCompleted ''1'']"

text \<open>A stream of two sections whose deltas interleave with each other and with the page's.\<close>

definition interleaved :: "event list" where
  "interleaved =
     [PageCreated ''1'' ''u'' ''T'', PageContentDelta ''Hel'',
      PageSectionsCreated [(''s1'', ''A''), (''s2'', ''B'')],
      PageSectionContentDelta ''s1'' ''a'', PageContentDelta ''lo'',
      PageSectionContentDelta ''s2'' ''x'', PageSectionContentDelta ''s1'' ''b'',
      PageCompleted ''1'']"

section \<open>The pagination merger\<close>

text \<open>
  \<open>uniqBy\<close> of lodash-es (a dependency): it walks the array from the left, computes the
  key of each value with the iteratee, and keeps the value when the key is not among the
  keys seen so far, which it then joins.
\<close>

fun baseUniq :: "('a \<Rightarrow> 'k) \<Rightarrow> 'k list \<Rightarrow> 'a list \<Rightarrow> 'a list" where
  "baseUniq iteratee seen [] = []"
| "baseUniq iteratee seen (x # xs) =
     (if iteratee x \<in> set seen then baseUniq iteratee seen xs
      else x # baseUniq iteratee (seen @ [iteratee x]) xs)"

definition uniqBy :: "'a list \<Rightarrow> ('a \<Rightarrow> 'k) \<Rightarrow> 'a list" where
  "uniqBy xs iteratee = baseUniq iteratee [] xs"

text \<open>\<open>prev || []\<close>.\<close>

definition orEmpty :: "'a list option \<Rightarrow> 'a list" where
  "orEmpty prev = (case prev of None \<Rightarrow> [] | Some xs \<Rightarrow> xs)"

text \<open>The updater of \<open>setSections\<close> at line 330: \<open>uniqBy([...(prev || []), ...messages], 'id')\<close>.\<close>

definition mergeSections :: "SectionItem list option \<Rightarrow> SectionItem list \<Rightarrow> SectionItem list" where
  "mergeSections prev messages = uniqBy (orEmpty prev @ messages) section_id"

text \<open>A string that may be \<open>undefined\<close> is truthy when it is defined and not empty.\<close>

definition truthy :: "string option \<Rightarrow> bool" where
  "truthy v = (case v of None \<Rightarrow> False | Some x \<Rightarrow> x \<noteq> [])"

text \<open>
  The result of \<open>listPageSections\<close> as the effects read it: \<open>edges\<close> holds the nodes
  (\<open>edges.map(x => x.node)\<close>; absent edges have no length, like the empty array).
\<close>

record PageInfo =
  hasNextPage :: bool
  endCursor :: "string option"

record PageSectionConnection =
  edges :: "SectionItem list"
  pageInfo :: PageInfo

text \<open>
  The effect on \<open>pageSectionData\<close> (lines 323-342); \<open>pageSections\<close> is the value of
  \<open>pageSectionData?.pageSections\<close>.
\<close>

definition pageSectionDataEffect ::
  "bool \<Rightarrow> PageSectionConnection option \<Rightarrow> state \<Rightarrow> state" where
  "pageSectionDataEffect pageSectionsStale pageSections s =
     (if pageSectionsStale then s
      else case pageSections of
        None \<Rightarrow> s
      | Some ps \<Rightarrow>
          (let s1 = (if edges ps \<noteq> []
                     then s\<lparr> sections := Some (mergeSections (sections s) (edges ps)) \<rparr>
                     else s)
           in if hasNextPage (pageInfo ps) \<and> truthy (endCursor (pageInfo ps))
              then s1\<lparr> afterCursor := endCursor (pageInfo ps) \<rparr>
              else s1\<lparr> isReady := True \<rparr>))"

text \<open>The effect on \<open>pageSectionsError\<close> (lines 361-365).\<close>

definition pageSectionsErrorEffect :: "string option \<Rightarrow> state \<Rightarrow> state" where
  "pageSectionsErrorEffect pageSectionsError s =
     (if pageSectionsError \<noteq> None \<and> \<not> isReady s then s\<lparr> isReady := True \<rparr> else s)"

text \<open>
  The \<open>pause\<close> option of the \<open>listPageSections\<close> query (line 320): while it holds, no
  request is issued.
\<close>

definition listPageSectionsPaused :: "string option \<Rightarrow> state \<Rightarrow> bool" where
  "listPageSectionsPaused pageIdFromURL s = (\<not> truthy pageIdFromURL \<or> isReady s)"

section \<open>Deleting a section\<close>

text \<open>
  \<open>onDeleteSection\<close> (lines 462-473), at the moment the mutation answers. \<open>response\<close> is
  the value of \<open>data?.data?.deletePageSection\<close>, and \<open>seen\<close> the section list of the
  render that created the handler, which is the list the \<open>then\<close> callback filters.
  Without a page id in the URL the handler returns before it calls the mutation.
\<close>

definition onDeleteSection ::
  "string option \<Rightarrow> SectionItem list option \<Rightarrow> string \<Rightarrow> bool option \<Rightarrow> state \<Rightarrow> state" where
  "onDeleteSection pageIdFromURL seen sectionId response s =
     (if \<not> truthy pageIdFromURL then s
      else if response = Some True
           then s\<lparr> sections := map_option (filter (\<lambda>x. section_id x \<noteq> sectionId)) seen \<rparr>
           else s\<lparr> toasts := toasts s @ [''Failed to delete''] \<rparr>)"

text \<open>A first page of two historical sections of page \<open>p1\<close>, with a next page announced.\<close>

definition firstPage :: PageSectionConnection where
  "firstPage =
     \<lparr> edges = nextSections (Some ''p1'') [(''a'', ''A''), (''b'', ''B'')],
       pageInfo = \<lparr> hasNextPage = True, endCursor = Some ''c1'' \<rparr> \<rparr>"

text \<open>Three historical sections of page \<open>p1\<close>.\<close>

definition threeSections :: "SectionItem list" where
  "threeSections = nextSections (Some ''p1'') [(''a'', ''A''), (''b'', ''B''), (''c'', ''C'')]"

text \<open>
  The merge as the specification words it, for comparison with \<open>mergeSections\<close>:
  deduplicated by id, each record staying at the position of the first occurrence of its
  id. Position \<open>n\<close> of a list is a first occurrence when no earlier position holds the
  same key; the stable union of a list keeps exactly the records at such positions, in
  their order.
\<close>

definition firstOccurrence :: "('a \<Rightarrow> 'k) \<Rightarrow> 'a list \<Rightarrow> nat \<Rightarrow> bool" where
  "firstOccurrence f xs n = list_all (\<lambda>m. f (xs ! m) \<noteq> f (xs ! n)) [0..<n]"

definition stableUnion :: "('a \<Rightarrow> 'k) \<Rightarrow> 'a list \<Rightarrow> 'a list" where
  "stableUnion f xs = map (\<lambda>n. xs ! n) (filter (firstOccurrence f xs) [0..<length xs])"

section \<open>Properties of the reducer\<close>

lemma find_None_notin:
  "i \<notin> f ` set xs \<Longrightarrow> find (\<lambda>x. f x = i) xs = None"
  by (induction xs) auto

text \<open>
  C5. In a state whose pending-set does not contain \<open>i\<close>, a
  \<open>PageSectionContentCompleted(i)\<close> event leaves the pending-set as it was.
\<close>

theorem completed_absent_noop:
  "i \<notin> pendingSectionIds s \<Longrightarrow>
   pendingSectionIds (processPageStream pid now (PageSectionContentCompleted i) s)
     = pendingSectionIds s"
  by (simp add: removePending_def)

theorem completed_absent_noop_witness:
  "''s1'' \<notin> pendingSectionIds ((initialState None)\<lparr> pendingSectionIds := {''s2''} \<rparr>) \<and>
   pendingSectionIds (processPageStream None ''t'' (PageSectionContentCompleted ''s1'')
       ((initialState None)\<lparr> pendingSectionIds := {''s2''} \<rparr>)) = {''s2''}"
  using completed_absent_noop
    [of "''s1''" "(initialState None)\<lparr> pendingSectionIds := {''s2''} \<rparr>" None "''t''"]
  by simp

text \<open>
  C6. A \<open>PageSectionContentDelta\<close> whose id names no section of the current list
  (the list may also be \<open>undefined\<close>) leaves the section list unchanged. The reducer is
  a total function with no \<open>throw\<close> and no access that can fail (\<open>prev?.find\<close> guards
  the undefined list), so there is no error result to return.
\<close>

theorem stray_delta_sections_unchanged:
  "i \<notin> sectionIds s \<Longrightarrow>
   sections (processPageStream pid now (PageSectionContentDelta i delta) s) = sections s"
  by (auto simp: sectionIds_def appendSectionDelta_def find_None_notin split: option.splits)

theorem stray_delta_sections_unchanged_witness:
  "''s9'' \<notin> sectionIds ((initialState None)\<lparr> sections := Some (nextSections None [(''s1'', ''A'')]) \<rparr>) \<and>
   sections (processPageStream None ''t'' (PageSectionContentDelta ''s9'' ''x'')
       ((initialState None)\<lparr> sections := Some (nextSections None [(''s1'', ''A'')]) \<rparr>))
     = Some (nextSections None [(''s1'', ''A'')])"
  using stray_delta_sections_unchanged
    [of "''s9''" "(initialState None)\<lparr> sections := Some (nextSections None [(''s1'', ''A'')]) \<rparr>"
        None "''t''" "''x''"]
  by (simp add: sectionIds_def nextSections_def)

text \<open>
  C7. \<open>stop\<close> empties the pending-set, clears the generating flag and sets loading to
  false; the page and the section list are the ones it found.
\<close>

theorem stop_clears_flags_keeps_content:
  "pendingSectionIds (stop s) = {} \<and> isGeneratingPageContent (stop s) = False \<and>
   isLoading (stop s) = False \<and> page (stop s) = page s \<and> sections (stop s) = sections s"
  by (simp add: stop_def)

text \<open>
  C10. A \<open>PageSectionContentDelta\<close> sets \<open>currentSectionId\<close> to the event's id in every
  state, whether or not a section with that id exists; on the initial state, which has
  no section at all, the event therefore changes the state.
\<close>

theorem delta_sets_current_unconditionally:
  "currentSectionId (processPageStream pid now (PageSectionContentDelta i delta) s) = Some i \<and>
   processPageStream pid now (PageSectionContentDelta i delta) (initialState t) \<noteq> initialState t"
proof
  show "currentSectionId (processPageStream pid now (PageSectionContentDelta i delta) s) = Some i"
    by simp
  have "currentSectionId (processPageStream pid now (PageSectionContentDelta i delta) (initialState t))
          \<noteq> currentSectionId (initialState t)"
    by (simp add: initialState_def)
  then show "processPageStream pid now (PageSectionContentDelta i delta) (initialState t) \<noteq> initialState t"
    by metis
qed

text \<open>
  C1. In a state where section \<open>s1\<close> exists and is pending, a
  \<open>PageSectionContentDelta(s1, "Hi")\<close> appends the delta and records \<open>s1\<close> as the
  current section, and it also removes \<open>s1\<close> from the pending-set: the arm has no
  \<open>break\<close> and runs the updater of \<open>PageSectionContentCompleted\<close> as well.
\<close>

theorem delta_falls_through_to_completed:
  "''s1'' \<in> sectionIds ((initialState None)\<lparr> sections := Some (nextSections None [(''s1'', ''A'')]),
                                            pendingSectionIds := {''s1''} \<rparr>) \<and>
   ''s1'' \<in> pendingSectionIds ((initialState None)\<lparr> sections := Some (nextSections None [(''s1'', ''A'')]),
                                                   pendingSectionIds := {''s1''} \<rparr>) \<and>
   map_option (map section_content)
     (sections (processPageStream None ''t'' (PageSectionContentDelta ''s1'' ''Hi'')
        ((initialState None)\<lparr> sections := Some (nextSections None [(''s1'', ''A'')]),
                               pendingSectionIds := {''s1''} \<rparr>))) = Some [''Hi''] \<and>
   currentSectionId (processPageStream None ''t'' (PageSectionContentDelta ''s1'' ''Hi'')
        ((initialState None)\<lparr> sections := Some (nextSections None [(''s1'', ''A'')]),
                               pendingSectionIds := {''s1''} \<rparr>)) = Some ''s1'' \<and>
   ''s1'' \<notin> pendingSectionIds (processPageStream None ''t'' (PageSectionContentDelta ''s1'' ''Hi'')
        ((initialState None)\<lparr> sections := Some (nextSections None [(''s1'', ''A'')]),
                               pendingSectionIds := {''s1''} \<rparr>))"
  by (simp add: sectionIds_def nextSections_def removePending_def appendSectionDelta_def)

text \<open>
  C2. Folding the events of Scenario 1 from the initial state ends with the page's
  content \<open>Hello\<close>, an empty pending-set and the one section \<open>s1\<close> with title \<open>A\<close> and
  content \<open>Hi\<close> (its \<open>pageId\<close> is the one the closure saw, its \<open>__typename\<close> is
  \<open>Section\<close>).
\<close>

theorem scenario1_final_state:
  "map_option page_content (page (runStream pid now (initialState t) (scenario1 a)))
     = Some ''Hello'' \<and>
   pendingSectionIds (runStream pid now (initialState t) (scenario1 a)) = {} \<and>
   sections (runStream pid now (initialState t) (scenario1 a)) =
     Some [\<lparr> section_typename = Some ''Section'', section_id = ''s1'', section_pageId = pid,
              section_title = ''A'', section_content = ''Hi'' \<rparr>]"
  by (simp add: runStream_def scenario1_def initialState_def stop_def appendPageDelta_def
        nextSections_def appendSectionDelta_def removePending_def)

subsection \<open>Causal streams\<close>

lemma causal_snoc: "causal (es @ [e]) = (admissible es e \<and> causal es)"
  by (simp add: causal_def)

lemma runStream_snoc:
  "runStream pid now s (es @ [e]) = processPageStream pid now e (runStream pid now s es)"
  by (simp add: runStream_def)

lemma pageCreatedIn_snoc: "pageCreatedIn (es @ [e]) = (pageCreatedIn es \<or> isPageCreated e)"
  by (simp add: pageCreatedIn_def)

lemma pageDeltas_snoc: "pageDeltas (es @ [e]) = pageDeltas es @ pageDelta e"
  by (simp add: pageDeltas_def)

lemma sectionDeltas_snoc: "sectionDeltas i (es @ [e]) = sectionDeltas i es @ sectionDelta i e"
  by (simp add: sectionDeltas_def)

lemma createdIds_snoc: "createdIds (es @ [e]) = createdIds es @ createdBy e"
  by (simp add: createdIds_def)

text \<open>The page holds exactly the page deltas delivered so far.\<close>

lemma page_invariant:
  "causal es \<Longrightarrow>
   (case page (runStream pid now (initialState t) es) of
      None \<Rightarrow> \<not> pageCreatedIn es \<and> pageDeltas es = []
    | Some p \<Rightarrow> pageCreatedIn es \<and> page_content p = pageDeltas es)"
proof (induction es rule: rev_induct)
  case Nil
  then show ?case
    by (simp add: runStream_def initialState_def pageCreatedIn_def pageDeltas_def)
next
  case (snoc e es)
  then have adm: "admissible es e" and ih:
    "case page (runStream pid now (initialState t) es) of
       None \<Rightarrow> \<not> pageCreatedIn es \<and> pageDeltas es = []
     | Some p \<Rightarrow> pageCreatedIn es \<and> page_content p = pageDeltas es"
    by (simp_all add: causal_snoc)
  show ?case
    using adm ih
    by (cases e)
       (auto simp: runStream_snoc pageCreatedIn_snoc pageDeltas_snoc pageDelta_def
          isPageCreated_def appendPageDelta_def stop_def split: option.splits)
qed

text \<open>In a causal sequence no delta carries an id that was not created.\<close>

lemma uncreated_no_deltas:
  "causal es \<Longrightarrow> i \<notin> set (createdIds es) \<Longrightarrow> sectionDeltas i es = []"
proof (induction es rule: rev_induct)
  case Nil
  then show ?case by (simp add: sectionDeltas_def)
next
  case (snoc e es)
  then show ?case
    by (cases e) (auto simp: causal_snoc createdIds_snoc sectionDeltas_snoc sectionDelta_def)
qed

text \<open>Every section of the list holds exactly the deltas delivered for its id so far.\<close>

lemma sections_invariant:
  "causal es \<Longrightarrow>
   (case sections (runStream pid now (initialState t) es) of
      None \<Rightarrow> createdIds es = []
    | Some xs \<Rightarrow> \<forall>x\<in>set xs. section_content x = sectionDeltas (section_id x) es)"
proof (induction es rule: rev_induct)
  case Nil
  then show ?case by (simp add: runStream_def initialState_def createdIds_def)
next
  case (snoc e es)
  then have adm: "admissible es e" and c: "causal es" and ih:
    "case sections (runStream pid now (initialState t) es) of
       None \<Rightarrow> createdIds es = []
     | Some xs \<Rightarrow> \<forall>x\<in>set xs. section_content x = sectionDeltas (section_id x) es"
    by (simp_all add: causal_snoc)
  show ?case
  proof (cases e)
    case (PageSectionsCreated ys)
    have "\<forall>y\<in>set ys. sectionDeltas (fst y) es = []"
      using adm c PageSectionsCreated by (auto simp: list_all_iff uncreated_no_deltas)
    then show ?thesis
      using PageSectionsCreated
      by (auto simp: runStream_snoc nextSections_def sectionDeltas_snoc sectionDelta_def)
  next
    case (PageSectionContentDelta i d)
    then show ?thesis
      using adm ih
      by (auto simp: runStream_snoc appendSectionDelta_def sectionDeltas_snoc sectionDelta_def
            createdIds_snoc createdBy_def find_None_iff split: option.splits)
  qed (use ih in \<open>auto simp: runStream_snoc sectionDeltas_snoc sectionDelta_def createdIds_snoc
          createdBy_def stop_def split: option.splits\<close>)
qed

text \<open>
  C3. For every causal event sequence, the fold from the initial state ends with the
  page's content equal to the concatenation, in delivery order, of all
  \<open>PageContentDelta\<close> deltas, and with the content of each section of the list equal to
  the concatenation, in delivery order, of the \<open>PageSectionContentDelta\<close> deltas that
  carry its id. Where there is no page, or no section list, at the end, no such delta
  was delivered.
\<close>

theorem causal_stream_concatenates_deltas:
  "causal es \<Longrightarrow>
   (case page (runStream pid now (initialState t) es) of
      None \<Rightarrow> pageDeltas es = []
    | Some p \<Rightarrow> page_content p = pageDeltas es) \<and>
   (case sections (runStream pid now (initialState t) es) of
      None \<Rightarrow> (\<forall>i. sectionDeltas i es = [])
    | Some xs \<Rightarrow> \<forall>x\<in>set xs. section_content x = sectionDeltas (section_id x) es)"
proof
  assume c: "causal es"
  show "case page (runStream pid now (initialState t) es) of
          None \<Rightarrow> pageDeltas es = []
        | Some p \<Rightarrow> page_content p = pageDeltas es"
    using page_invariant [OF c, of pid now t] by (simp split: option.splits)
  show "case sections (runStream pid now (initialState t) es) of
          None \<Rightarrow> (\<forall>i. sectionDeltas i es = [])
        | Some xs \<Rightarrow> \<forall>x\<in>set xs. section_content x = sectionDeltas (section_id x) es"
    using sections_invariant [OF c, of pid now t] uncreated_no_deltas [OF c]
    by (simp split: option.splits)
qed

theorem causal_stream_concatenates_deltas_witness:
  "causal interleaved \<and>
   pageDeltas interleaved = ''Hello'' \<and>
   sectionDeltas ''s1'' interleaved = ''ab'' \<and> sectionDeltas ''s2'' interleaved = ''x'' \<and>
   map_option page_content (page (runStream None ''t'' (initialState None) interleaved))
     = Some ''Hello'' \<and>
   map_option (map (\<lambda>x. (section_id x, section_content x)))
       (sections (runStream None ''t'' (initialState None) interleaved))
     = Some [(''s1'', ''ab''), (''s2'', ''x'')]"
  using causal_stream_concatenates_deltas [of interleaved None "''t''" None]
  by (simp add: causal_def interleaved_def pageCreatedIn_def isPageCreated_def createdIds_def
        createdBy_def pageDeltas_def pageDelta_def sectionDeltas_def sectionDelta_def
        runStream_def initialState_def stop_def appendPageDelta_def nextSections_def
        appendSectionDelta_def removePending_def)

section \<open>Properties of the pagination merger\<close>

lemma baseUniq_keys: "f ` set (baseUniq f seen xs) = f ` set xs - set seen"
  by (induction xs arbitrary: seen) auto

lemma baseUniq_distinct: "distinct (map f (baseUniq f seen xs))"
proof (induction xs arbitrary: seen)
  case Nil
  show ?case by simp
next
  case (Cons x xs)
  have "f x \<notin> f ` set (baseUniq f (seen @ [f x]) xs)"
    by (simp add: baseUniq_keys)
  with Cons show ?case by simp
qed

lemma baseUniq_subseq: "subseq (baseUniq f seen xs) xs"
  by (induction xs arbitrary: seen) auto

lemma baseUniq_find:
  "find (\<lambda>x. f x = k) (baseUniq f seen xs) =
     (if k \<in> set seen then None else find (\<lambda>x. f x = k) xs)"
proof (induction xs arbitrary: seen)
  case Nil
  show ?case by simp
next
  case (Cons x xs)
  show ?case by (auto simp: Cons)
qed

lemma baseUniq_append:
  "baseUniq f seen (xs @ ys) =
     baseUniq f seen xs @ baseUniq f (seen @ map f (baseUniq f seen xs)) ys"
  by (induction xs arbitrary: seen) auto

lemma baseUniq_all_seen: "f ` set ys \<subseteq> set seen \<Longrightarrow> baseUniq f seen ys = []"
  by (induction ys) auto

lemma baseUniq_fresh:
  "distinct (map f xs) \<Longrightarrow> f ` set xs \<inter> set seen = {} \<Longrightarrow> baseUniq f seen xs = xs"
  by (induction xs arbitrary: seen) auto

lemma uniqBy_again: "uniqBy (uniqBy (p @ q) f @ q) f = uniqBy (p @ q) f"
proof -
  define U where "U = baseUniq f [] (p @ q)"
  have u: "baseUniq f [] U = U"
    unfolding U_def by (rule baseUniq_fresh) (simp_all add: baseUniq_distinct)
  have "f ` set q \<subseteq> f ` set U"
    unfolding U_def by (auto simp: baseUniq_keys)
  then have e: "baseUniq f (map f U) q = []"
    by (intro baseUniq_all_seen) simp
  have "baseUniq f [] (U @ q) = baseUniq f [] U @ baseUniq f ([] @ map f (baseUniq f [] U)) q"
    by (rule baseUniq_append)
  then have "baseUniq f [] (U @ q) = U"
    by (simp add: u e)
  then show ?thesis
    by (simp add: uniqBy_def U_def)
qed

lemma mergeSections_again:
  "mergeSections (Some (mergeSections prev messages)) messages = mergeSections prev messages"
  by (simp add: mergeSections_def orEmpty_def uniqBy_again)

lemma uniqBy_snoc:
  "uniqBy (xs @ [x]) f = uniqBy xs f @ (if f x \<in> f ` set xs then [] else [x])"
proof -
  have "set (map f (baseUniq f [] xs)) = f ` set xs"
    using baseUniq_keys [of f "[]" xs] by simp
  then show ?thesis
    unfolding uniqBy_def
    using baseUniq_append [of f "[]" xs "[x]"] by (simp del: set_map)
qed

lemma firstOccurrence_append:
  "n < length xs \<Longrightarrow> firstOccurrence f (xs @ ys) n = firstOccurrence f xs n"
  by (simp add: firstOccurrence_def list_all_iff nth_append)

lemma firstOccurrence_last:
  "firstOccurrence f (xs @ [x]) (length xs) = (f x \<notin> f ` set xs)"
proof -
  have "firstOccurrence f (xs @ [x]) (length xs) = (\<forall>m<length xs. f (xs ! m) \<noteq> f x)"
    by (auto simp: firstOccurrence_def list_all_iff nth_append)
  also have "\<dots> = (f x \<notin> f ` set xs)"
    by (metis (no_types, lifting) image_iff in_set_conv_nth)
  finally show ?thesis .
qed

lemma stableUnion_snoc:
  "stableUnion f (xs @ [x]) = stableUnion f xs @ (if f x \<in> f ` set xs then [] else [x])"
proof -
  have a: "filter (firstOccurrence f (xs @ [x])) [0..<length xs]
             = filter (firstOccurrence f xs) [0..<length xs]"
    by (rule filter_cong) (simp_all add: firstOccurrence_append)
  have b: "map (\<lambda>n. (xs @ [x]) ! n) (filter (firstOccurrence f xs) [0..<length xs])
             = map (\<lambda>n. xs ! n) (filter (firstOccurrence f xs) [0..<length xs])"
    by (rule map_cong) (auto simp: nth_append)
  show ?thesis
    by (simp add: stableUnion_def a b firstOccurrence_last)
qed

text \<open>\<open>uniqBy\<close> keeps exactly the records at the first occurrences of their keys.\<close>

lemma uniqBy_stableUnion: "uniqBy xs f = stableUnion f xs"
proof (induction xs rule: rev_induct)
  case Nil
  show ?case by (simp add: uniqBy_def stableUnion_def)
next
  case (snoc x xs)
  then show ?case by (simp only: uniqBy_snoc stableUnion_snoc)
qed

text \<open>What the effect on \<open>pageSectionData\<close> stores in the section list.\<close>

lemma sections_pageSectionDataEffect:
  "sections (pageSectionDataEffect stale d s) =
     (if stale then sections s
      else case d of
        None \<Rightarrow> sections s
      | Some ps \<Rightarrow> if edges ps = [] then sections s
                   else Some (mergeSections (sections s) (edges ps)))"
  by (simp add: pageSectionDataEffect_def Let_def split: option.splits)

text \<open>
  C4. The effect on a page of historical sections stores the merge of the section list
  with the whole page (and leaves the list alone when the result is stale, absent or
  empty). The merge is the stable union of the old list followed by the page: it keeps
  exactly the records that stand at the first occurrence of their id, each at its place,
  so the result has no repeated id, is a subsequence of the concatenation and holds for
  every id the first record with that id. Merging the same page a second time changes
  nothing, through the updater and through the effect. Merging \<open>[a, b]\<close> and then
  \<open>[b, c]\<close> into an empty list gives \<open>[a, b, c]\<close>, with the \<open>b\<close> of the first page,
  through the updater and through the effect from the initial state.
\<close>

theorem merge_dedup_first_idempotent:
  "mergeSections prev messages = stableUnion section_id (orEmpty prev @ messages) \<and>
   sections (pageSectionDataEffect stale d s) =
     (if stale then sections s
      else case d of
        None \<Rightarrow> sections s
      | Some ps \<Rightarrow> if edges ps = [] then sections s
                   else Some (mergeSections (sections s) (edges ps))) \<and>
   distinct (map section_id (mergeSections prev messages)) \<and>
   subseq (mergeSections prev messages) (orEmpty prev @ messages) \<and>
   find (\<lambda>x. section_id x = i) (mergeSections prev messages)
     = find (\<lambda>x. section_id x = i) (orEmpty prev @ messages) \<and>
   mergeSections (Some (mergeSections prev messages)) messages = mergeSections prev messages \<and>
   sections (pageSectionDataEffect stale d (pageSectionDataEffect stale d s))
     = sections (pageSectionDataEffect stale d s) \<and>
   mergeSections (Some (mergeSections None [a\<lparr>section_id := ''a''\<rparr>, b\<lparr>section_id := ''b''\<rparr>]))
       [b'\<lparr>section_id := ''b''\<rparr>, c\<lparr>section_id := ''c''\<rparr>]
     = [a\<lparr>section_id := ''a''\<rparr>, b\<lparr>section_id := ''b''\<rparr>, c\<lparr>section_id := ''c''\<rparr>] \<and>
   sections (pageSectionDataEffect False
       (Some \<lparr> edges = [b'\<lparr>section_id := ''b''\<rparr>, c\<lparr>section_id := ''c''\<rparr>], pageInfo = i2 \<rparr>)
       (pageSectionDataEffect False
          (Some \<lparr> edges = [a\<lparr>section_id := ''a''\<rparr>, b\<lparr>section_id := ''b''\<rparr>], pageInfo = i1 \<rparr>)
          (initialState t)))
     = Some [a\<lparr>section_id := ''a''\<rparr>, b\<lparr>section_id := ''b''\<rparr>, c\<lparr>section_id := ''c''\<rparr>]"
proof (intro conjI)
  show "mergeSections prev messages = stableUnion section_id (orEmpty prev @ messages)"
    by (simp add: mergeSections_def uniqBy_stableUnion)
  show "sections (pageSectionDataEffect stale d s) =
     (if stale then sections s
      else case d of
        None \<Rightarrow> sections s
      | Some ps \<Rightarrow> if edges ps = [] then sections s
                   else Some (mergeSections (sections s) (edges ps)))"
    by (rule sections_pageSectionDataEffect)
  show "distinct (map section_id (mergeSections prev messages))"
    by (simp add: mergeSections_def uniqBy_def baseUniq_distinct)
  show "subseq (mergeSections prev messages) (orEmpty prev @ messages)"
    by (simp add: mergeSections_def uniqBy_def baseUniq_subseq)
  show "find (\<lambda>x. section_id x = i) (mergeSections prev messages)
     = find (\<lambda>x. section_id x = i) (orEmpty prev @ messages)"
    by (simp add: mergeSections_def uniqBy_def baseUniq_find)
  show "mergeSections (Some (mergeSections prev messages)) messages = mergeSections prev messages"
    by (rule mergeSections_again)
  show "sections (pageSectionDataEffect stale d (pageSectionDataEffect stale d s))
     = sections (pageSectionDataEffect stale d s)"
    by (simp add: pageSectionDataEffect_def Let_def mergeSections_again split: option.splits)
  show "mergeSections (Some (mergeSections None [a\<lparr>section_id := ''a''\<rparr>, b\<lparr>section_id := ''b''\<rparr>]))
       [b'\<lparr>section_id := ''b''\<rparr>, c\<lparr>section_id := ''c''\<rparr>]
     = [a\<lparr>section_id := ''a''\<rparr>, b\<lparr>section_id := ''b''\<rparr>, c\<lparr>section_id := ''c''\<rparr>]"
    by (simp add: mergeSections_def orEmpty_def uniqBy_def)
  show "sections (pageSectionDataEffect False
       (Some \<lparr> edges = [b'\<lparr>section_id := ''b''\<rparr>, c\<lparr>section_id := ''c''\<rparr>], pageInfo = i2 \<rparr>)
       (pageSectionDataEffect False
          (Some \<lparr> edges = [a\<lparr>section_id := ''a''\<rparr>, b\<lparr>section_id := ''b''\<rparr>], pageInfo = i1 \<rparr>)
          (initialState t)))
     = Some [a\<lparr>section_id := ''a''\<rparr>, b\<lparr>section_id := ''b''\<rparr>, c\<lparr>section_id := ''c''\<rparr>]"
    by (simp add: sections_pageSectionDataEffect mergeSections_def orEmpty_def uniqBy_def
          initialState_def)
qed

text \<open>
  At the list \<open>[x, y]\<close> and a page that brings \<open>x\<close> again, positions 0 and 1 of
  \<open>[x, y, x]\<close> are the first occurrences, and the merge is \<open>[x, y]\<close>: the record \<open>x\<close>
  stays in front.
\<close>

theorem merge_dedup_first_idempotent_witness:
  "filter (firstOccurrence section_id
       (nextSections None [(''x'', ''X''), (''y'', ''Y''), (''x'', ''X'')])) [0..<3] = [0, 1] \<and>
   mergeSections (Some (nextSections None [(''x'', ''X''), (''y'', ''Y'')]))
       (nextSections None [(''x'', ''X'')])
     = nextSections None [(''x'', ''X''), (''y'', ''Y'')] \<and>
   sections (pageSectionDataEffect False (Some firstPage) (initialState None))
     = Some (edges firstPage)"
  using merge_dedup_first_idempotent
    [of "Some (nextSections None [(''x'', ''X''), (''y'', ''Y'')])"
        "nextSections None [(''x'', ''X'')]" False "Some firstPage" "initialState None"]
  by (simp add: mergeSections_def orEmpty_def uniqBy_def nextSections_def firstOccurrence_def
        stableUnion_def upt_rec firstPage_def initialState_def)

section \<open>Properties of the failure path of the pagination\<close>

text \<open>
  C8, as stated, fails when the failed result carries records. The effect on the data
  does not read the error: a result with the error \<open>Failed to fetch\<close> and the two
  records of \<open>firstPage\<close>, arriving in the initial state, puts both records into the
  section list and moves the cursor.
\<close>

theorem failed_fetch_with_records_is_merged:
  "sections (initialState None) = None \<and>
   sections (pageSectionsErrorEffect (Some ''Failed to fetch'')
       (pageSectionDataEffect False (Some firstPage) (initialState None)))
     = Some (nextSections (Some ''p1'') [(''a'', ''A''), (''b'', ''B'')]) \<and>
   afterCursor (pageSectionsErrorEffect (Some ''Failed to fetch'')
       (pageSectionDataEffect False (Some firstPage) (initialState None))) = Some ''c1''"
  by (simp add: pageSectionDataEffect_def pageSectionsErrorEffect_def firstPage_def
        initialState_def Let_def truthy_def mergeSections_def orEmpty_def uniqBy_def
        nextSections_def)

text \<open>
  C8, amended. When a fetch of a page of historical sections fails (the result carries an
  error), after the two effects the view is ready and the query is paused, so no further
  page is requested. The section list is then either the list as it was or its merge with
  all the records the result carries, never with a part of them; it is the list as it
  was, with the cursor as it was, when the failed result carries no data. The effect on
  the error itself writes neither the list nor the cursor.
\<close>

theorem failed_fetch_marks_ready:
  "isReady (pageSectionsErrorEffect (Some e) (pageSectionDataEffect stale d s)) \<and>
   listPageSectionsPaused p (pageSectionsErrorEffect (Some e) (pageSectionDataEffect stale d s)) \<and>
   sections (pageSectionsErrorEffect (Some e) (pageSectionDataEffect stale d s)) =
     (if stale then sections s
      else case d of
        None \<Rightarrow> sections s
      | Some ps \<Rightarrow> if edges ps = [] then sections s
                   else Some (mergeSections (sections s) (edges ps))) \<and>
   sections (pageSectionsErrorEffect (Some e) (pageSectionDataEffect stale None s)) = sections s \<and>
   afterCursor (pageSectionsErrorEffect (Some e) (pageSectionDataEffect stale None s))
     = afterCursor s \<and>
   sections (pageSectionsErrorEffect (Some e) s) = sections s \<and>
   afterCursor (pageSectionsErrorEffect (Some e) s) = afterCursor s"
  by (simp add: pageSectionDataEffect_def pageSectionsErrorEffect_def listPageSectionsPaused_def
        Let_def split: option.splits)

theorem failed_fetch_marks_ready_witness:
  "\<not> isReady (pageSectionDataEffect False (Some firstPage) (initialState None)) \<and>
   \<not> listPageSectionsPaused (Some ''p1'')
       (pageSectionDataEffect False (Some firstPage) (initialState None)) \<and>
   sections (pageSectionsErrorEffect (Some ''Failed to fetch'') (pageSectionDataEffect False None
       (pageSectionDataEffect False (Some firstPage) (initialState None))))
     = Some (edges firstPage) \<and>
   afterCursor (pageSectionsErrorEffect (Some ''Failed to fetch'') (pageSectionDataEffect False None
       (pageSectionDataEffect False (Some firstPage) (initialState None))))
     = Some ''c1'' \<and>
   isReady (pageSectionsErrorEffect (Some ''Failed to fetch'') (pageSectionDataEffect False None
       (pageSectionDataEffect False (Some firstPage) (initialState None)))) \<and>
   listPageSectionsPaused (Some ''p1'')
     (pageSectionsErrorEffect (Some ''Failed to fetch'') (pageSectionDataEffect False None
       (pageSectionDataEffect False (Some firstPage) (initialState None))))"
  using failed_fetch_marks_ready
    [of "''Failed to fetch''" False None
        "pageSectionDataEffect False (Some firstPage) (initialState None)" "Some ''p1''"]
  by (simp add: pageSectionDataEffect_def firstPage_def initialState_def Let_def truthy_def
        listPageSectionsPaused_def mergeSections_def orEmpty_def uniqBy_def nextSections_def)

section \<open>Properties of the delete-section handler\<close>

text \<open>
  A delete-section call that reaches the mutation and is answered with a falsy response
  leaves the section list unchanged and produces the notice \<open>Failed to delete\<close>.
\<close>

lemma delete_section_falsy_keeps_list:
  "truthy pageIdFromURL \<Longrightarrow> response \<noteq> Some True \<Longrightarrow>
   sections (onDeleteSection pageIdFromURL seen sectionId response s) = sections s \<and>
   toasts (onDeleteSection pageIdFromURL seen sectionId response s)
     = toasts s @ [''Failed to delete'']"
  by (simp add: onDeleteSection_def)

text \<open>
  C9. On a truthy response the handler does not filter the section list of the moment:
  line 468 filters the list of the render that created the handler and stores the
  result. With the list \<open>[a, b, c]\<close> on screen, the user deletes \<open>a\<close> and then \<open>b\<close>
  before the first response arrives, so both calls come from the same render. The first
  confirmed response leaves \<open>[b, c]\<close>; the second leaves \<open>[a, c]\<close>, not \<open>[c]\<close>: section
  \<open>a\<close>, deleted and confirmed, is back in the list.
\<close>

theorem delete_section_stale_list_revives_deleted:
  "sections (onDeleteSection (Some ''p1'') (Some threeSections) ''a'' (Some True)
       ((initialState None)\<lparr> sections := Some threeSections \<rparr>))
     = Some (nextSections (Some ''p1'') [(''b'', ''B''), (''c'', ''C'')]) \<and>
   sections (onDeleteSection (Some ''p1'') (Some threeSections) ''b'' (Some True)
       (onDeleteSection (Some ''p1'') (Some threeSections) ''a'' (Some True)
          ((initialState None)\<lparr> sections := Some threeSections \<rparr>)))
     = Some (nextSections (Some ''p1'') [(''a'', ''A''), (''c'', ''C'')])"
  by (simp add: onDeleteSection_def truthy_def threeSections_def nextSections_def)

end
